theory Spec2Isabelle
  imports Main
begin

section \<open>Values of the Python program\<close>

text \<open>
  The script \<^verbatim>\<open>scripts/create_placeholder_icons.py\<close> draws seven square
  placeholder icons and writes them as PNG files. The exceptions that can occur along
  its paths are values of \<open>py_error\<close>; \<open>SystemExit n\<close> is what
  \<^verbatim>\<open>sys.exit(n)\<close> raises.
\<close>

datatype py_error =
    ImportError | ModuleNotFoundError
  | OSError | FileExistsError | FileNotFoundError | IsADirectoryError
  | ValueError
  | SystemExit int

text \<open>\<^verbatim>\<open>except (OSError, IOError)\<close>: \<open>IOError\<close> is an alias of
  \<open>OSError\<close>, and the file errors are its subclasses.\<close>

fun is_OSError :: "py_error \<Rightarrow> bool" where
  "is_OSError OSError = True"
| "is_OSError FileExistsError = True"
| "is_OSError FileNotFoundError = True"
| "is_OSError IsADirectoryError = True"
| "is_OSError _ = False"

text \<open>\<^verbatim>\<open>except ImportError\<close>: \<open>ModuleNotFoundError\<close> is its subclass.\<close>

fun is_ImportError :: "py_error \<Rightarrow> bool" where
  "is_ImportError ImportError = True"
| "is_ImportError ModuleNotFoundError = True"
| "is_ImportError _ = False"

type_synonym rgba = "int \<times> int \<times> int \<times> int"
type_synonym bbox = "int \<times> int \<times> int \<times> int"

datatype font = FreeTypeFont string int | DefaultFont

text \<open>The drawing calls made on a canvas, in the order they are made:
  \<^verbatim>\<open>draw.rectangle(xy, outline=, width=)\<close> and
  \<^verbatim>\<open>draw.text(xy, text, fill=, font=)\<close>.\<close>

datatype draw_op =
    DrawRectangle "int list" rgba int
  | DrawText "int \<times> int" string rgba font

record canvas =
  im_mode :: string
  im_size :: "int \<times> int"
  im_color :: rgba
  im_ops :: "draw_op list"

datatype file_content = PNG canvas | OtherData

text \<open>The part of the machine the script reads and writes: the directories, the
  regular files with their content, and the lines printed on standard output.\<close>

record world =
  dirs :: "string set"
  files :: "string \<rightharpoonup> file_content"
  stdout :: "string list"

text \<open>What the script is run with: whether Pillow can be imported, the absolute path
  of the script file (\<^verbatim>\<open>os.path.abspath(__file__)\<close>), the result of
  \<^verbatim>\<open>ImageFont.truetype(path, size)\<close>, and the bounding box Pillow measures for
  a text in a font with the anchor at the origin.\<close>

record env =
  pil_installed :: bool
  script_abspath :: string
  truetype :: "string \<Rightarrow> int \<Rightarrow> py_error + font"
  text_extent :: "string \<Rightarrow> font \<Rightarrow> bbox"

section \<open>Library calls\<close>

text \<open>\<^verbatim>\<open>posixpath.join\<close>: a component that starts with a slash replaces the
  path, otherwise it is appended, after a slash if the path needs one.\<close>

definition join_step :: "string \<Rightarrow> string \<Rightarrow> string" where
  "join_step path b =
     (case b of
        c # cs \<Rightarrow>
          (if c = CHR ''/'' then b
           else if path = [] then path @ b
           else if last path = CHR ''/'' then path @ b
           else path @ ''/'' @ b)
      | [] \<Rightarrow>
          (if path = [] then path @ b
           else if last path = CHR ''/'' then path @ b
           else path @ ''/'' @ b))"

definition os_path_join :: "string \<Rightarrow> string list \<Rightarrow> string" where
  "os_path_join a ps = foldl join_step a ps"

text \<open>\<^verbatim>\<open>posixpath.dirname\<close>: everything up to the last slash, with trailing
  slashes removed unless nothing else is left.\<close>

definition rstrip_sep :: "string \<Rightarrow> string" where
  "rstrip_sep s = rev (dropWhile (\<lambda>c. c = CHR ''/'') (rev s))"

definition os_path_dirname :: "string \<Rightarrow> string" where
  "os_path_dirname p =
     (let head = rev (dropWhile (\<lambda>c. c \<noteq> CHR ''/'') (rev p))
      in if head = [] then head
         else if list_all (\<lambda>c. c = CHR ''/'') head then head
         else rstrip_sep head)"

definition os_path_exists :: "world \<Rightarrow> string \<Rightarrow> bool" where
  "os_path_exists w p =
     (if p \<in> dirs w then True
      else (case files w p of None \<Rightarrow> False | Some _ \<Rightarrow> True))"

text \<open>\<^verbatim>\<open>os.makedirs(name, exist_ok=True)\<close>: an existing directory is accepted, a
  regular file of that name is an error. Paths are compared as strings, and of the
  directories created only \<open>name\<close> itself is recorded: the parents are taken
  to be directories or absent, and a parent that is a regular file, for which the
  library raises, is not seen here.\<close>

definition os_makedirs :: "string \<Rightarrow> world \<Rightarrow> py_error + world" where
  "os_makedirs name w =
     (if name \<in> dirs w then Inr w
      else (case files w name of
              None \<Rightarrow> Inr (w\<lparr>dirs := insert name (dirs w)\<rparr>)
            | Some _ \<Rightarrow> Inl FileExistsError))"

definition py_print :: "string \<Rightarrow> world \<Rightarrow> world" where
  "py_print s w = w\<lparr>stdout := stdout w @ [s]\<rparr>"

text \<open>\<^verbatim>\<open>str(n)\<close> for an integer, as the f-strings format it.\<close>

definition digit_char :: "nat \<Rightarrow> char" where
  "digit_char d = ''0123456789'' ! d"

fun str_nat :: "nat \<Rightarrow> string" where
  "str_nat n = (if n < 10 then [digit_char n] else str_nat (n div 10) @ [digit_char (n mod 10)])"

definition str_int :: "int \<Rightarrow> string" where
  "str_int i = (if i < 0 then ''-'' @ str_nat (nat (- i)) else str_nat (nat i))"

text \<open>\<^verbatim>\<open>Image.new('RGBA', (w, h), color)\<close> and the two drawing calls, which
  append to the canvas.\<close>

definition Image_new :: "string \<Rightarrow> int \<times> int \<Rightarrow> rgba \<Rightarrow> canvas" where
  "Image_new mode sz color = \<lparr>im_mode = mode, im_size = sz, im_color = color, im_ops = []\<rparr>"

definition draw_rectangle :: "int list \<Rightarrow> rgba \<Rightarrow> int \<Rightarrow> canvas \<Rightarrow> canvas" where
  "draw_rectangle xy outline width img = img\<lparr>im_ops := im_ops img @ [DrawRectangle xy outline width]\<rparr>"

definition draw_text :: "int \<times> int \<Rightarrow> string \<Rightarrow> rgba \<Rightarrow> font \<Rightarrow> canvas \<Rightarrow> canvas" where
  "draw_text xy text fill fnt img = img\<lparr>im_ops := im_ops img @ [DrawText xy text fill fnt]\<rparr>"

text \<open>\<^verbatim>\<open>draw.textbbox(xy, text, font=font)\<close>: the box the text occupies when it is
  drawn with its anchor at \<open>xy\<close>, which is the box measured at the origin moved by
  \<open>xy\<close>.\<close>

definition textbbox :: "env \<Rightarrow> int \<times> int \<Rightarrow> string \<Rightarrow> font \<Rightarrow> bbox" where
  "textbbox e xy text fnt =
     (case text_extent e text fnt of
        (l, t, r, b) \<Rightarrow> (fst xy + l, snd xy + t, fst xy + r, snd xy + b))"

text \<open>\<^verbatim>\<open>img.save(output_path, 'PNG')\<close>: the file is created or overwritten; the
  path must not be a directory and its directory must exist (an empty directory part
  is the current directory). A directory part that is a regular file is reported as
  \<open>FileNotFoundError\<close> too, where the library has its own subclass of
  \<open>OSError\<close>.\<close>

definition save :: "canvas \<Rightarrow> string \<Rightarrow> world \<Rightarrow> py_error + world" where
  "save img fp w =
     (if fp = [] then Inl FileNotFoundError
      else if fp \<in> dirs w then Inl IsADirectoryError
      else if os_path_dirname fp = [] then Inr (w\<lparr>files := (files w)(fp \<mapsto> PNG img)\<rparr>)
      else if os_path_dirname fp \<in> dirs w then Inr (w\<lparr>files := (files w)(fp \<mapsto> PNG img)\<rparr>)
      else Inl FileNotFoundError)"

section \<open>The icon generator\<close>

text \<open>Lines 34 to 39: the size asked of the truetype font.\<close>

definition font_size :: "int \<Rightarrow> int" where
  "font_size sz =
     (if sz \<ge> 128 then sz div 8
      else if sz \<ge> 64 then sz div 6
      else sz div 4)"

text \<open>Lines 43 to 47.\<close>

definition font_paths :: "string list" where
  "font_paths =
     [''/System/Library/Fonts/Helvetica.ttc'',
      ''/System/Library/Fonts/Arial.ttf'',
      ''/usr/share/fonts/truetype/liberation/LiberationSans-Regular.ttf'']"

text \<open>Lines 49 to 53: the loop over the font paths, which stops at the first path
  that exists and loads it; \<open>None\<close> is Python's \<^verbatim>\<open>font = None\<close> left
  unchanged, \<open>Inl\<close> an exception raised by the loader.\<close>

fun try_font_paths :: "env \<Rightarrow> world \<Rightarrow> string list \<Rightarrow> int \<Rightarrow> py_error + font option" where
  "try_font_paths e w [] n = Inr None"
| "try_font_paths e w (font_path # rest) n =
     (if os_path_exists w font_path then
        (case truetype e font_path n of
           Inl err \<Rightarrow> Inl err
         | Inr f \<Rightarrow> Inr (Some f))
      else try_font_paths e w rest n)"

text \<open>\<^verbatim>\<open>ImageFont.load_default()\<close>, the font built into the library.\<close>

definition load_default :: font where
  "load_default = DefaultFont"

text \<open>Lines 41 to 59: the inner \<^verbatim>\<open>try\<close> with its handler for
  \<^verbatim>\<open>(OSError, IOError)\<close>.\<close>

definition load_font_inner :: "env \<Rightarrow> world \<Rightarrow> int \<Rightarrow> py_error + font" where
  "load_font_inner e w n =
     (case try_font_paths e w font_paths n of
        Inr (Some f) \<Rightarrow> Inr f
      | Inr None \<Rightarrow> Inr load_default
      | Inl err \<Rightarrow> (if is_OSError err then Inr load_default else Inl err))"

text \<open>Lines 32 to 62: the outer \<^verbatim>\<open>try\<close> with its handler for
  \<^verbatim>\<open>ImportError\<close>.\<close>

definition load_font :: "env \<Rightarrow> world \<Rightarrow> int \<Rightarrow> py_error + font" where
  "load_font e w sz =
     (case load_font_inner e w (font_size sz) of
        Inr f \<Rightarrow> Inr f
      | Inl err \<Rightarrow> (if is_ImportError err then Inr load_default else Inl err))"

text \<open>Lines 28, 65 to 68 and 79.\<close>

definition border_width :: "int \<Rightarrow> int" where
  "border_width sz = max 1 (sz div 64)"

definition label_text :: "int \<Rightarrow> string" where
  "label_text sz = (if sz \<ge> 64 then ''OR'' else ''O'')"

definition shadow_offset :: "int \<Rightarrow> int" where
  "shadow_offset sz = max 1 (sz div 128)"

text \<open>Lines 70 to 76: the label is measured with the anchor at the origin, and the
  position it is drawn at is computed from the width and the height of that box.\<close>

definition text_pos :: "env \<Rightarrow> int \<Rightarrow> font \<Rightarrow> int \<times> int" where
  "text_pos e sz fnt =
     (case textbbox e (0, 0) (label_text sz) fnt of
        (b0, b1, b2, b3) \<Rightarrow>
          (let text_width = b2 - b0;
               text_height = b3 - b1
           in ((sz - text_width) div 2, (sz - text_height) div 2)))"

text \<open>Lines 78 to 82: the shadow is drawn first, then the label on top.\<close>

definition draw_label :: "env \<Rightarrow> int \<Rightarrow> font \<Rightarrow> canvas \<Rightarrow> canvas" where
  "draw_label e sz fnt img =
     (let text = label_text sz;
          x = fst (text_pos e sz fnt);
          y = snd (text_pos e sz fnt);
          img1 = (if shadow_offset sz > 0
                  then draw_text (x + shadow_offset sz, y + shadow_offset sz) text
                         (0, 0, 0, 100) fnt img
                  else img)
      in draw_text (x, y) text (255, 255, 255, 255) fnt img1)"

text \<open>Line 86.\<close>

definition created_line :: "int \<Rightarrow> string \<Rightarrow> string" where
  "created_line sz output_path =
     ''Created '' @ str_int sz @ ''x'' @ str_int sz @ '' icon: '' @ output_path"

text \<open>\<^verbatim>\<open>create_placeholder_icon(size, output_path)\<close>, lines 20 to 86. The result is
  the exception that leaves the function, if any, and the world afterwards. The size
  is a positive integer, as the callers pass it: for a size below 1 the library raises
  in \<^verbatim>\<open>Image.new\<close> or \<^verbatim>\<open>draw.rectangle\<close>, which is not shown here.\<close>

definition create_placeholder_icon ::
  "env \<Rightarrow> int \<Rightarrow> string \<Rightarrow> world \<Rightarrow> py_error option \<times> world" where
  "create_placeholder_icon e sz output_path w =
     (let img = Image_new ''RGBA'' (sz, sz) (52, 120, 246, 255);
          img = draw_rectangle [0, 0, sz - 1, sz - 1] (30, 90, 200, 255) (border_width sz) img
      in case load_font e w sz of
           Inl err \<Rightarrow> (Some err, w)
         | Inr fnt \<Rightarrow>
             (case save (draw_label e sz fnt img) output_path w of
                Inl err \<Rightarrow> (Some err, w)
              | Inr w' \<Rightarrow> (None, py_print (created_line sz output_path) w')))"

section \<open>The entry point\<close>

text \<open>Lines 100 to 108.\<close>

definition icon_sizes :: "(int \<times> string) list" where
  "icon_sizes =
     [(16, ''icon_16x16.png''),
      (32, ''icon_32x32.png''),
      (64, ''icon_64x64.png''),
      (128, ''icon_128x128.png''),
      (256, ''icon_256x256.png''),
      (512, ''icon_512x512.png''),
      (1024, ''icon_1024x1024.png'')]"

text \<open>Lines 111 and 112.\<close>

definition script_dir :: "env \<Rightarrow> string" where
  "script_dir e = os_path_dirname (script_abspath e)"

definition app_icon_dir :: "env \<Rightarrow> string" where
  "app_icon_dir e =
     os_path_join (script_dir e) [''..'', ''Orchard'', ''Assets.xcassets'', ''AppIcon.appiconset'']"

text \<open>Lines 122 to 124: the loop over the icon sizes; an exception ends it.\<close>

fun generate_icons :: "env \<Rightarrow> string \<Rightarrow> (int \<times> string) list \<Rightarrow> world \<Rightarrow> py_error option \<times> world" where
  "generate_icons e d [] w = (None, w)"
| "generate_icons e d ((sz, filename) # rest) w =
     (case create_placeholder_icon e sz (os_path_join d [filename]) w of
        (Some err, w') \<Rightarrow> (Some err, w')
      | (None, w') \<Rightarrow> generate_icons e d rest w')"

text \<open>\<^verbatim>\<open>import PIL\<close>, in \<open>main\<close> and (as \<^verbatim>\<open>from PIL import ...\<close>) at
  the top of the module.\<close>

definition import_PIL :: "env \<Rightarrow> py_error + unit" where
  "import_PIL e = (if pil_installed e then Inr () else Inl ModuleNotFoundError)"

text \<open>Lines 127 to 130; the first line starts with the check mark U+2705, three bytes
  in UTF-8.\<close>

definition completion_lines :: "string list" where
  "completion_lines =
     ['''',
      [CHR 0xE2, CHR 0x9C, CHR 0x85] @ '' Placeholder icons generated successfully!'',
      '''',
      ''Your app should now build without icon errors.'',
      ''To create proper app icons, see the ICON_GUIDE.md file.'']"

definition banner_lines :: "string \<Rightarrow> string list" where
  "banner_lines d =
     [''Generating placeholder app icons for Orchard...'',
      ''Output directory: '' @ d,
      '''']"

definition print_lines :: "string list \<Rightarrow> world \<Rightarrow> world" where
  "print_lines ls w = foldl (\<lambda>v l. py_print l v) w ls"

text \<open>\<^verbatim>\<open>main()\<close>, lines 88 to 130.\<close>

definition main :: "env \<Rightarrow> world \<Rightarrow> py_error option \<times> world" where
  "main e w =
     (case import_PIL e of
        Inl err \<Rightarrow>
          (if is_ImportError err
           then (Some (SystemExit 1),
                 py_print ''Install it with: pip install Pillow''
                   (py_print ''Error: Pillow library is required.'' w))
           else (Some err, w))
      | Inr _ \<Rightarrow>
          (case os_makedirs (app_icon_dir e) w of
             Inl err \<Rightarrow> (Some err, w)
           | Inr w1 \<Rightarrow>
               (case generate_icons e (app_icon_dir e) icon_sizes
                       (print_lines (banner_lines (app_icon_dir e)) w1) of
                  (Some err, w2) \<Rightarrow> (Some err, w2)
                | (None, w2) \<Rightarrow> (None, print_lines completion_lines w2))))"

text \<open>The module run as a script: the imports of lines 16 to 18, the two function
  definitions, then \<^verbatim>\<open>main()\<close> (line 133). An exception of line 17 leaves the
  module before \<open>main\<close> is defined.\<close>

definition script :: "env \<Rightarrow> world \<Rightarrow> py_error option \<times> world" where
  "script e w =
     (case import_PIL e of
        Inl err \<Rightarrow> (Some err, w)
      | Inr _ \<Rightarrow> main e w)"

text \<open>The exit status of the interpreter: 0 when the script ends, the argument of
  \<^verbatim>\<open>sys.exit\<close>, and 1 after any other uncaught exception (whose traceback goes to
  standard error).\<close>

fun exit_status :: "py_error option \<Rightarrow> int" where
  "exit_status None = 0"
| "exit_status (Some (SystemExit n)) = n"
| "exit_status (Some _) = 1"

section \<open>Reading the result\<close>

text \<open>The canvas stored in a PNG file of the world, and the parts of its drawing
  calls the properties below speak about.\<close>

definition written :: "world \<Rightarrow> string \<Rightarrow> canvas option" where
  "written w p = (case files w p of Some (PNG c) \<Rightarrow> Some c | Some OtherData \<Rightarrow> None | None \<Rightarrow> None)"

fun rendered_texts :: "draw_op list \<Rightarrow> string list" where
  "rendered_texts [] = []"
| "rendered_texts (DrawText xy t fill fnt # ops) = t # rendered_texts ops"
| "rendered_texts (DrawRectangle xy outline width # ops) = rendered_texts ops"

fun rectangle_widths :: "draw_op list \<Rightarrow> int list" where
  "rectangle_widths [] = []"
| "rectangle_widths (DrawRectangle xy outline width # ops) = width # rectangle_widths ops"
| "rectangle_widths (DrawText xy t fill fnt # ops) = rectangle_widths ops"

text \<open>The texts drawn in a given colour, with their positions.\<close>

fun texts_filled :: "rgba \<Rightarrow> draw_op list \<Rightarrow> (int \<times> int) list" where
  "texts_filled col [] = []"
| "texts_filled col (DrawText xy t fill fnt # ops) =
     (if fill = col then xy # texts_filled col ops else texts_filled col ops)"
| "texts_filled col (DrawRectangle xy outline width # ops) = texts_filled col ops"

text \<open>The fonts of the texts drawn.\<close>

fun text_fonts :: "draw_op list \<Rightarrow> font list" where
  "text_fonts [] = []"
| "text_fonts (DrawText xy t fill fnt # ops) = fnt # text_fonts ops"
| "text_fonts (DrawRectangle xy outline width # ops) = text_fonts ops"

text \<open>The boxes occupied on the canvas by the texts drawn in a given colour: a text
  drawn at \<open>xy\<close> occupies \<open>textbbox\<close> at \<open>xy\<close>.\<close>

fun text_boxes :: "env \<Rightarrow> rgba \<Rightarrow> draw_op list \<Rightarrow> bbox list" where
  "text_boxes e col [] = []"
| "text_boxes e col (DrawText xy t fill fnt # ops) =
     (if fill = col then textbbox e xy t fnt # text_boxes e col ops else text_boxes e col ops)"
| "text_boxes e col (DrawRectangle xy outline width # ops) = text_boxes e col ops"

text \<open>A box is centred on a square canvas of side \<open>sz\<close> when its left and right
  margins, and its top and bottom margins, differ by at most one pixel (the rounding
  of the integer division).\<close>

definition centred_on :: "int \<Rightarrow> bbox \<Rightarrow> bool" where
  "centred_on sz bx =
     (case bx of (l, t, r, b) \<Rightarrow> abs (l - (sz - r)) \<le> 1 \<and> abs (t - (sz - b)) \<le> 1)"

section \<open>Sample runs\<close>

text \<open>A machine with Pillow and the Linux font, where the script lives in
  \<^verbatim>\<open>/repo/scripts\<close>; the font loader refuses a size that is not positive, as
  Pillow does, and the text box starts four pixels below the anchor.\<close>

definition sample_env :: env where
  "sample_env =
     \<lparr>pil_installed = True,
      script_abspath = ''/repo/scripts/create_placeholder_icons.py'',
      truetype = (\<lambda>p n. if n \<le> 0 then Inl ValueError else Inr (FreeTypeFont p n)),
      text_extent = (\<lambda>t f. (0, 4, 8 * int (length t), 14))\<rparr>"

definition sample_world :: world where
  "sample_world =
     \<lparr>dirs = {''/repo/scripts''},
      files = [''/usr/share/fonts/truetype/liberation/LiberationSans-Regular.ttf'' \<mapsto> OtherData],
      stdout = []\<rparr>"


definition no_pillow_env :: env where
  "no_pillow_env = sample_env\<lparr>pil_installed := False\<rparr>"

text \<open>The world the first sample run leaves, with one icon file replaced by other data
  and one removed.\<close>

definition clobbered_world :: world where
  "clobbered_world =
     (snd (main sample_env sample_world))
       \<lparr>files := (files (snd (main sample_env sample_world)))
          (''/repo/scripts/../Orchard/Assets.xcassets/AppIcon.appiconset/icon_16x16.png'' \<mapsto> OtherData,
           ''/repo/scripts/../Orchard/Assets.xcassets/AppIcon.appiconset/icon_1024x1024.png'' := None)\<rparr>"

declare str_nat.simps [simp del]

section \<open>The drawing calls of one icon\<close>

lemma shadow_offset_pos: "0 < shadow_offset sz"
  by (simp add: shadow_offset_def)

lemma create_placeholder_icon_written:
  assumes "create_placeholder_icon e sz p w = (None, w')"
  shows "\<exists>fnt. load_font e w sz = Inr fnt \<and>
           written w' p = Some
             \<lparr>im_mode = ''RGBA'', im_size = (sz, sz), im_color = (52, 120, 246, 255),
              im_ops =
                [DrawRectangle [0, 0, sz - 1, sz - 1] (30, 90, 200, 255) (border_width sz),
                 DrawText (fst (text_pos e sz fnt) + shadow_offset sz,
                           snd (text_pos e sz fnt) + shadow_offset sz)
                   (label_text sz) (0, 0, 0, 100) fnt,
                 DrawText (fst (text_pos e sz fnt), snd (text_pos e sz fnt))
                   (label_text sz) (255, 255, 255, 255) fnt]\<rparr>"
proof -
  from assms obtain fnt where f: "load_font e w sz = Inr fnt"
    by (cases "load_font e w sz") (auto simp: create_placeholder_icon_def Let_def)
  let ?img = "draw_label e sz fnt
      (draw_rectangle [0, 0, sz - 1, sz - 1] (30, 90, 200, 255) (border_width sz)
        (Image_new ''RGBA'' (sz, sz) (52, 120, 246, 255)))"
  from assms f obtain w1 where s: "save ?img p w = Inr w1"
    and w': "w' = py_print (created_line sz p) w1"
    by (cases "save ?img p w") (auto simp: create_placeholder_icon_def Let_def)
  from s have "files w1 p = Some (PNG ?img)"
    by (auto simp: save_def split: if_splits)
  with w' have "written w' p = Some ?img"
    by (simp add: written_def py_print_def)
  moreover have "?img = \<lparr>im_mode = ''RGBA'', im_size = (sz, sz), im_color = (52, 120, 246, 255),
              im_ops =
                [DrawRectangle [0, 0, sz - 1, sz - 1] (30, 90, 200, 255) (border_width sz),
                 DrawText (fst (text_pos e sz fnt) + shadow_offset sz,
                           snd (text_pos e sz fnt) + shadow_offset sz)
                   (label_text sz) (0, 0, 0, 100) fnt,
                 DrawText (fst (text_pos e sz fnt), snd (text_pos e sz fnt))
                   (label_text sz) (255, 255, 255, 255) fnt]\<rparr>"
    by (simp add: draw_label_def Let_def shadow_offset_pos draw_text_def draw_rectangle_def
        Image_new_def)
  ultimately show ?thesis using f by simp
qed

text \<open>C2: for every size, an icon that is generated carries the label \<open>OR\<close> when
  the size is at least 64 and the label \<open>O\<close> when it is below 64. The label is
  drawn twice, as the shadow and as the white text, so the texts of the canvas are two
  copies of it.\<close>

theorem label_text_by_size:
  assumes "create_placeholder_icon e sz p w = (None, w')"
  shows "map_option (rendered_texts \<circ> im_ops) (written w' p) =
           Some (if sz \<ge> 64 then [''OR'', ''OR''] else [''O'', ''O''])"
  using create_placeholder_icon_written [OF assms] by (auto simp: label_text_def)

theorem label_text_by_size_witness:
  "create_placeholder_icon sample_env 64 ''/repo/scripts/icon_64x64.png'' sample_world =
     (None, snd (create_placeholder_icon sample_env 64 ''/repo/scripts/icon_64x64.png'' sample_world)) \<and>
   map_option (rendered_texts \<circ> im_ops)
     (written (snd (create_placeholder_icon sample_env 64 ''/repo/scripts/icon_64x64.png'' sample_world))
        ''/repo/scripts/icon_64x64.png'') = Some [''OR'', ''OR'']"
proof -
  have "fst (create_placeholder_icon sample_env 64 ''/repo/scripts/icon_64x64.png'' sample_world) = None"
    by code_simp
  then have h: "create_placeholder_icon sample_env 64 ''/repo/scripts/icon_64x64.png'' sample_world =
     (None, snd (create_placeholder_icon sample_env 64 ''/repo/scripts/icon_64x64.png'' sample_world))"
    by (simp add: prod_eq_iff)
  from label_text_by_size [OF h] h show ?thesis by simp
qed

text \<open>C3: for every size, the outline rectangle of an icon that is generated is drawn
  with the border width \<open>max 1 (size div 64)\<close>, and it is the only rectangle.\<close>

theorem border_width_by_size:
  assumes "create_placeholder_icon e sz p w = (None, w')"
  shows "map_option (rectangle_widths \<circ> im_ops) (written w' p) = Some [max 1 (sz div 64)]"
  using create_placeholder_icon_written [OF assms] by (auto simp: border_width_def)

theorem border_width_by_size_witness:
  "create_placeholder_icon sample_env 1024 ''/repo/scripts/icon_1024x1024.png'' sample_world =
     (None, snd (create_placeholder_icon sample_env 1024 ''/repo/scripts/icon_1024x1024.png'' sample_world)) \<and>
   map_option (rectangle_widths \<circ> im_ops)
     (written (snd (create_placeholder_icon sample_env 1024 ''/repo/scripts/icon_1024x1024.png'' sample_world))
        ''/repo/scripts/icon_1024x1024.png'') = Some [16]"
proof -
  have "fst (create_placeholder_icon sample_env 1024 ''/repo/scripts/icon_1024x1024.png'' sample_world) = None"
    by code_simp
  then have h: "create_placeholder_icon sample_env 1024 ''/repo/scripts/icon_1024x1024.png'' sample_world =
     (None, snd (create_placeholder_icon sample_env 1024 ''/repo/scripts/icon_1024x1024.png'' sample_world))"
    by (simp add: prod_eq_iff)
  from border_width_by_size [OF h] h show ?thesis by simp
qed

text \<open>C4: for every size, the shadow of an icon that is generated is the text in
  semi-transparent black drawn at the position of the white label moved right and
  down by \<open>max 1 (size div 128)\<close>.\<close>

theorem shadow_offset_by_size:
  assumes "create_placeholder_icon e sz p w = (None, w')"
  shows "\<exists>x y. map_option (texts_filled (255, 255, 255, 255) \<circ> im_ops) (written w' p) = Some [(x, y)] \<and>
           map_option (texts_filled (0, 0, 0, 100) \<circ> im_ops) (written w' p) =
             Some [(x + max 1 (sz div 128), y + max 1 (sz div 128))]"
  using create_placeholder_icon_written [OF assms] by (auto simp: shadow_offset_def)

theorem shadow_offset_by_size_witness:
  "create_placeholder_icon sample_env 1024 ''/repo/scripts/shadow_1024.png'' sample_world =
     (None, snd (create_placeholder_icon sample_env 1024 ''/repo/scripts/shadow_1024.png'' sample_world)) \<and>
   (\<exists>x y. map_option (texts_filled (255, 255, 255, 255) \<circ> im_ops)
       (written (snd (create_placeholder_icon sample_env 1024 ''/repo/scripts/shadow_1024.png'' sample_world))
          ''/repo/scripts/shadow_1024.png'') = Some [(x, y)] \<and>
     map_option (texts_filled (0, 0, 0, 100) \<circ> im_ops)
       (written (snd (create_placeholder_icon sample_env 1024 ''/repo/scripts/shadow_1024.png'' sample_world))
          ''/repo/scripts/shadow_1024.png'') = Some [(x + 8, y + 8)])"
proof -
  have "fst (create_placeholder_icon sample_env 1024 ''/repo/scripts/shadow_1024.png'' sample_world) = None"
    by code_simp
  then have h: "create_placeholder_icon sample_env 1024 ''/repo/scripts/shadow_1024.png'' sample_world =
     (None, snd (create_placeholder_icon sample_env 1024 ''/repo/scripts/shadow_1024.png'' sample_world))"
    by (simp add: prod_eq_iff)
  from shadow_offset_by_size [OF h] h show ?thesis by simp
qed

text \<open>C10: for every size from 1 on, the shadow offset \<open>max 1 (size div 128)\<close> is
  at least 1, so the test \<open>shadow_offset > 0\<close> of line 80 never fails, and every icon
  that is generated has exactly one text drawn in semi-transparent black.\<close>

theorem shadow_always_drawn:
  assumes "1 \<le> sz"
  shows "1 \<le> shadow_offset sz \<and> shadow_offset sz = max 1 (sz div 128) \<and>
         (create_placeholder_icon e sz p w = (None, w') \<longrightarrow>
            map_option (length \<circ> texts_filled (0, 0, 0, 100) \<circ> im_ops) (written w' p) = Some 1)"
proof (intro conjI impI)
  show "1 \<le> shadow_offset sz" by (simp add: shadow_offset_def)
  show "shadow_offset sz = max 1 (sz div 128)" by (simp add: shadow_offset_def)
  assume "create_placeholder_icon e sz p w = (None, w')"
  from create_placeholder_icon_written [OF this]
  show "map_option (length \<circ> texts_filled (0, 0, 0, 100) \<circ> im_ops) (written w' p) = Some 1"
    by auto
qed

theorem shadow_always_drawn_witness:
  "(1::int) \<le> 16 \<and> 1 \<le> shadow_offset 16 \<and>
   create_placeholder_icon sample_env 16 ''/repo/scripts/icon_16x16.png'' sample_world =
     (None, snd (create_placeholder_icon sample_env 16 ''/repo/scripts/icon_16x16.png'' sample_world)) \<and>
   map_option (length \<circ> texts_filled (0, 0, 0, 100) \<circ> im_ops)
     (written (snd (create_placeholder_icon sample_env 16 ''/repo/scripts/icon_16x16.png'' sample_world))
        ''/repo/scripts/icon_16x16.png'') = Some 1"
proof -
  have "fst (create_placeholder_icon sample_env 16 ''/repo/scripts/icon_16x16.png'' sample_world) = None"
    by code_simp
  then have h: "create_placeholder_icon sample_env 16 ''/repo/scripts/icon_16x16.png'' sample_world =
     (None, snd (create_placeholder_icon sample_env 16 ''/repo/scripts/icon_16x16.png'' sample_world))"
    by (simp add: prod_eq_iff)
  have one: "(1::int) \<le> 16" by simp
  from shadow_always_drawn [OF one, of sample_env "''/repo/scripts/icon_16x16.png''" sample_world
      "snd (create_placeholder_icon sample_env 16 ''/repo/scripts/icon_16x16.png'' sample_world)"] h
  show ?thesis by simp
qed

section \<open>Loading the font\<close>

lemma try_font_paths_find:
  "try_font_paths e w ps n =
     (case List.find (os_path_exists w) ps of
        None \<Rightarrow> Inr None
      | Some p \<Rightarrow> (case truetype e p n of Inl err \<Rightarrow> Inl err | Inr f \<Rightarrow> Inr (Some f)))"
  by (induction ps) auto

lemma load_font_find:
  "load_font e w sz =
     (case List.find (os_path_exists w) font_paths of
        None \<Rightarrow> Inr DefaultFont
      | Some p \<Rightarrow>
          (case truetype e p (font_size sz) of
             Inr f \<Rightarrow> Inr f
           | Inl err \<Rightarrow>
               if is_OSError err then Inr DefaultFont
               else if is_ImportError err then Inr DefaultFont
               else Inl err))"
  by (simp add: load_font_def load_font_inner_def try_font_paths_find load_default_def
      split: option.splits sum.splits)

text \<open>C5, as the code has it: the font size asked of the loader is \<open>size div 8\<close>
  from 128 on, \<open>size div 6\<close> from 64 on and \<open>size div 4\<close> below (integer division);
  the first of the three paths, in their order, that exists is the one loaded; the
  built-in font is used when none exists, or when the loader raises an
  \<open>OSError\<close> or an \<open>ImportError\<close>; any other exception of the loader is the
  result. The font so chosen is the font of both texts of a generated icon.\<close>

theorem font_choice:
  "load_font e w sz =
     (case List.find (os_path_exists w)
             [''/System/Library/Fonts/Helvetica.ttc'',
              ''/System/Library/Fonts/Arial.ttf'',
              ''/usr/share/fonts/truetype/liberation/LiberationSans-Regular.ttf''] of
        None \<Rightarrow> Inr DefaultFont
      | Some p \<Rightarrow>
          (case truetype e p
                  (if sz \<ge> 128 then sz div 8 else if sz \<ge> 64 then sz div 6 else sz div 4) of
             Inr f \<Rightarrow> Inr f
           | Inl err \<Rightarrow>
               if is_OSError err then Inr DefaultFont
               else if is_ImportError err then Inr DefaultFont
               else Inl err)) \<and>
   (create_placeholder_icon e sz q w = (None, w') \<longrightarrow>
      map_option (map Inr \<circ> text_fonts \<circ> im_ops) (written w' q) =
        Some [load_font e w sz, load_font e w sz])"
proof (intro conjI impI)
  show "load_font e w sz =
     (case List.find (os_path_exists w)
             [''/System/Library/Fonts/Helvetica.ttc'',
              ''/System/Library/Fonts/Arial.ttf'',
              ''/usr/share/fonts/truetype/liberation/LiberationSans-Regular.ttf''] of
        None \<Rightarrow> Inr DefaultFont
      | Some p \<Rightarrow>
          (case truetype e p
                  (if sz \<ge> 128 then sz div 8 else if sz \<ge> 64 then sz div 6 else sz div 4) of
             Inr f \<Rightarrow> Inr f
           | Inl err \<Rightarrow>
               if is_OSError err then Inr DefaultFont
               else if is_ImportError err then Inr DefaultFont
               else Inl err))"
    unfolding load_font_find font_paths_def font_size_def ..
next
  assume "create_placeholder_icon e sz q w = (None, w')"
  from create_placeholder_icon_written [OF this]
  show "map_option (map Inr \<circ> text_fonts \<circ> im_ops) (written w' q) =
        Some [load_font e w sz, load_font e w sz]"
    by auto
qed

theorem font_choice_witness:
  "create_placeholder_icon sample_env 64 ''/repo/scripts/font_64.png'' sample_world =
     (None, snd (create_placeholder_icon sample_env 64 ''/repo/scripts/font_64.png'' sample_world)) \<and>
   map_option (map Inr \<circ> text_fonts \<circ> im_ops)
     (written (snd (create_placeholder_icon sample_env 64 ''/repo/scripts/font_64.png'' sample_world))
        ''/repo/scripts/font_64.png'') =
     Some [Inr (FreeTypeFont ''/usr/share/fonts/truetype/liberation/LiberationSans-Regular.ttf'' 10),
           Inr (FreeTypeFont ''/usr/share/fonts/truetype/liberation/LiberationSans-Regular.ttf'' 10)
             :: py_error + font]"
proof -
  have "fst (create_placeholder_icon sample_env 64 ''/repo/scripts/font_64.png'' sample_world) = None"
    by code_simp
  then have h: "create_placeholder_icon sample_env 64 ''/repo/scripts/font_64.png'' sample_world =
     (None, snd (create_placeholder_icon sample_env 64 ''/repo/scripts/font_64.png'' sample_world))"
    by (simp add: prod_eq_iff)
  have f: "load_font sample_env sample_world 64 =
     Inr (FreeTypeFont ''/usr/share/fonts/truetype/liberation/LiberationSans-Regular.ttf'' 10)"
    by code_simp
  have r: "map_option (map Inr \<circ> text_fonts \<circ> im_ops)
     (written (snd (create_placeholder_icon sample_env 64 ''/repo/scripts/font_64.png'' sample_world))
        ''/repo/scripts/font_64.png'') =
     Some [load_font sample_env sample_world 64, load_font sample_env sample_world 64]"
    by (rule font_choice [THEN conjunct2, THEN mp, OF h])
  from h r [unfolded f] show ?thesis by (rule conjI)
qed

text \<open>C5 as it is stated fails where the loader raises something else: for the size 3
  the font size is 0, the loader refuses it with \<open>ValueError\<close>, and no font is
  substituted.\<close>

theorem font_choice_counterexample:
  "os_path_exists sample_world ''/usr/share/fonts/truetype/liberation/LiberationSans-Regular.ttf'' \<and>
   truetype sample_env ''/usr/share/fonts/truetype/liberation/LiberationSans-Regular.ttf''
     (font_size 3) = Inl ValueError \<and>
   load_font sample_env sample_world 3 = Inl ValueError"
  by code_simp




section \<open>Where the label is drawn\<close>

lemma half_twice: "2 * ((a::int) div 2) = a - a mod 2"
  by (simp add: minus_mod_eq_mult_div [symmetric])

text \<open>The label is drawn at \<open>text_pos\<close>, which is computed from the width and the
  height of the measured box alone. Drawn there, the text is off the centre by the
  offsets \<open>l\<close> and \<open>t\<close> of the measured box from its anchor.\<close>

lemma text_pos_offset:
  assumes "text_extent e (label_text sz) fnt = (l, t, r, b)"
  shows "centred_on sz (textbbox e (text_pos e sz fnt) (label_text sz) fnt) \<longleftrightarrow>
           abs (2 * l - (sz - (r - l)) mod 2) \<le> 1 \<and> abs (2 * t - (sz - (b - t)) mod 2) \<le> 1"
proof -
  define x where "x = (sz - (r - l)) div 2"
  define y where "y = (sz - (b - t)) div 2"
  have x2: "2 * x = (sz - (r - l)) - (sz - (r - l)) mod 2"
    unfolding x_def by (rule half_twice)
  have y2: "2 * y = (sz - (b - t)) - (sz - (b - t)) mod 2"
    unfolding y_def by (rule half_twice)
  have pos: "text_pos e sz fnt = (x, y)"
    using assms by (simp add: text_pos_def textbbox_def Let_def x_def y_def)
  have box: "textbbox e (x, y) (label_text sz) fnt = (x + l, y + t, x + r, y + b)"
    using assms by (simp add: textbbox_def)
  have "centred_on sz (x + l, y + t, x + r, y + b) \<longleftrightarrow>
          abs (2 * x + l + r - sz) \<le> 1 \<and> abs (2 * y + t + b - sz) \<le> 1"
    by (simp add: centred_on_def algebra_simps)
  also have "2 * x + l + r - sz = 2 * l - (sz - (r - l)) mod 2"
    using x2 by linarith
  also have "2 * y + t + b - sz = 2 * t - (sz - (b - t)) mod 2"
    using y2 by linarith
  finally show ?thesis by (simp add: pos box)
qed

text \<open>When the measured box starts at its anchor, the label is centred.\<close>

lemma text_pos_centred:
  assumes "text_extent e (label_text sz) fnt = (0, 0, r, b)"
  shows "centred_on sz (textbbox e (text_pos e sz fnt) (label_text sz) fnt)"
proof -
  have "0 \<le> (sz - r) mod 2" "(sz - r) mod 2 < 2" "0 \<le> (sz - b) mod 2" "(sz - b) mod 2 < 2"
    by simp_all
  then show ?thesis
    unfolding text_pos_offset [OF assms] by simp linarith
qed

text \<open>When it starts two pixels or more below or beside the anchor, the label is not
  centred.\<close>

lemma text_pos_not_centred:
  assumes "text_extent e (label_text sz) fnt = (l, t, r, b)" and "2 \<le> t"
  shows "\<not> centred_on sz (textbbox e (text_pos e sz fnt) (label_text sz) fnt)"
proof -
  have "(sz - (b - t)) mod 2 < 2" by simp
  with assms(2) show ?thesis
    unfolding text_pos_offset [OF assms(1)] by linarith
qed

text \<open>C8 at the size 64, for a font whose box for \<open>OR\<close> is 16 wide and 10 high and
  starts 4 pixels below the anchor: the label is drawn at \<open>(24, 27)\<close> and occupies the
  rows 31 to 41, so 31 rows are free above it and 23 below. It is not centred.\<close>

theorem label_not_centred:
  "text_extent sample_env ''OR'' (FreeTypeFont ''/usr/share/fonts/truetype/liberation/LiberationSans-Regular.ttf'' 10)
     = (0, 4, 16, 14) \<and>
   map_option (texts_filled (255, 255, 255, 255) \<circ> im_ops)
     (written (snd (create_placeholder_icon sample_env 64 ''/repo/scripts/icon_64x64.png'' sample_world))
        ''/repo/scripts/icon_64x64.png'') = Some [(24, 27)] \<and>
   map_option (text_boxes sample_env (255, 255, 255, 255) \<circ> im_ops)
     (written (snd (create_placeholder_icon sample_env 64 ''/repo/scripts/icon_64x64.png'' sample_world))
        ''/repo/scripts/icon_64x64.png'') = Some [(24, 31, 40, 41)] \<and>
   centred_on 64 (24, 31, 40, 41) = False"
  by code_simp

section \<open>The script without Pillow\<close>

lemma script_cases:
  "script e w = (if pil_installed e then main e w else (Some ModuleNotFoundError, w))"
  by (simp add: script_def import_PIL_def)

lemma main_without_pillow:
  assumes "\<not> pil_installed e"
  shows "main e w =
    (Some (SystemExit 1),
     w\<lparr>stdout := stdout w @ [''Error: Pillow library is required.'',
                               ''Install it with: pip install Pillow'']\<rparr>)"
  using assms by (simp add: main_def import_PIL_def py_print_def)

text \<open>C1 on a machine without Pillow: the import of line 17 raises before \<open>main\<close>
  is reached, so the script ends with the uncaught \<open>ModuleNotFoundError\<close>: the exit
  status is 1 and no file is written, but nothing is printed on standard output. The
  two lines with the install instructions are what \<open>main\<close> would print, were it
  called.\<close>

theorem script_without_pillow:
  "pil_installed no_pillow_env = False \<and>
   fst (script no_pillow_env sample_world) = Some ModuleNotFoundError \<and>
   exit_status (fst (script no_pillow_env sample_world)) = 1 \<and>
   stdout (snd (script no_pillow_env sample_world)) = [] \<and>
   written (snd (script no_pillow_env sample_world))
     ''/repo/scripts/../Orchard/Assets.xcassets/AppIcon.appiconset/icon_16x16.png'' = None \<and>
   fst (main no_pillow_env sample_world) = Some (SystemExit 1) \<and>
   stdout (snd (main no_pillow_env sample_world)) =
     [''Error: Pillow library is required.'', ''Install it with: pip install Pillow'']"
  by code_simp

section \<open>One call and the world\<close>

text \<open>What a call does depends on the world only through its directories and through
  which of the font paths exist.\<close>

lemma find_map_cong:
  "map P xs = map Q xs \<Longrightarrow> List.find P xs = List.find Q xs"
  by (induction xs) auto

lemma load_font_same_fonts:
  assumes "map (os_path_exists v) font_paths = map (os_path_exists u) font_paths"
  shows "load_font e v sz = load_font e u sz"
  unfolding load_font_find find_map_cong [OF assms] ..

lemma os_path_exists_written:
  "os_path_exists (w\<lparr>files := (files w)(p \<mapsto> x)\<rparr>) q = (if q = p then True else os_path_exists w q)"
  by (simp add: os_path_exists_def)

lemma os_path_exists_py_print [simp]:
  "os_path_exists (py_print l w) q = os_path_exists w q"
  by (simp add: os_path_exists_def py_print_def)

lemma save_Inr:
  assumes "save img p u = Inr u'"
  shows "u' = u\<lparr>files := (files u)(p \<mapsto> PNG img)\<rparr>"
  using assms by (auto simp: save_def split: if_splits)

lemma save_same_dirs:
  assumes "dirs v = dirs u"
  shows "save img p v = map_sum id (\<lambda>_. v\<lparr>files := (files v)(p \<mapsto> PNG img)\<rparr>) (save img p u)"
  using assms by (simp add: save_def)

lemma create_placeholder_icon_lockstep:
  assumes run: "create_placeholder_icon e sz p u = (None, u')"
    and d: "dirs v = dirs u"
    and f: "map (os_path_exists v) font_paths = map (os_path_exists u) font_paths"
  shows "\<exists>c. im_size c = (sz, sz) \<and>
           u' = py_print (created_line sz p) (u\<lparr>files := (files u)(p \<mapsto> PNG c)\<rparr>) \<and>
           create_placeholder_icon e sz p v =
             (None, py_print (created_line sz p) (v\<lparr>files := (files v)(p \<mapsto> PNG c)\<rparr>))"
proof -
  from run obtain fnt where lf: "load_font e u sz = Inr fnt"
    by (cases "load_font e u sz") (auto simp: create_placeholder_icon_def Let_def)
  let ?img = "draw_label e sz fnt
      (draw_rectangle [0, 0, sz - 1, sz - 1] (30, 90, 200, 255) (border_width sz)
        (Image_new ''RGBA'' (sz, sz) (52, 120, 246, 255)))"
  from run lf obtain u1 where s: "save ?img p u = Inr u1"
    and u': "u' = py_print (created_line sz p) u1"
    by (cases "save ?img p u") (auto simp: create_placeholder_icon_def Let_def)
  have sz: "im_size ?img = (sz, sz)"
    by (simp add: draw_label_def Let_def draw_text_def draw_rectangle_def Image_new_def)
  have u1: "u1 = u\<lparr>files := (files u)(p \<mapsto> PNG ?img)\<rparr>"
    by (rule save_Inr [OF s])
  have sv: "save ?img p v = Inr (v\<lparr>files := (files v)(p \<mapsto> PNG ?img)\<rparr>)"
    unfolding save_same_dirs [OF d] s by simp
  have lv: "load_font e v sz = Inr fnt"
    unfolding load_font_same_fonts [OF f] by (rule lf)
  have "create_placeholder_icon e sz p v =
      (None, py_print (created_line sz p) (v\<lparr>files := (files v)(p \<mapsto> PNG ?img)\<rparr>))"
    by (simp add: create_placeholder_icon_def Let_def lv sv)
  with sz u' u1 show ?thesis by blast
qed

lemma create_placeholder_icon_None:
  assumes "create_placeholder_icon e sz p u = (None, u')"
  shows "\<exists>c. im_size c = (sz, sz) \<and>
           u' = py_print (created_line sz p) (u\<lparr>files := (files u)(p \<mapsto> PNG c)\<rparr>)"
  using create_placeholder_icon_lockstep [OF assms refl refl] by blast

section \<open>The loop\<close>

text \<open>Two runs of the loop from worlds with the same directories and the same font
  files go the same way: the same files are written with the same contents (the map
  \<open>M\<close>), and only at the paths of the list.\<close>

lemma generate_icons_lockstep:
  assumes "generate_icons e d specs u = (None, u')"
    and "dirs v = dirs u"
    and "map (os_path_exists v) font_paths = map (os_path_exists u) font_paths"
  shows "\<exists>M v'. files u' = files u ++ M \<and> dom M \<subseteq> set (map (\<lambda>(sz, f). os_path_join d [f]) specs) \<and>
           dirs u' = dirs u \<and>
           stdout u' = stdout u @ map (\<lambda>(sz, f). created_line sz (os_path_join d [f])) specs \<and>
           generate_icons e d specs v = (None, v') \<and>
           files v' = files v ++ M \<and> dirs v' = dirs v"
  using assms
proof (induction specs arbitrary: u v)
  case Nil
  then have "u' = u" by simp
  then show ?case by (intro exI [of _ Map.empty] exI [of _ v]) simp
next
  case (Cons spec specs)
  obtain sz f where spec: "spec = (sz, f)" by (cases spec)
  let ?p = "os_path_join d [f]"
  from Cons.prems(1) obtain u1 where c1: "create_placeholder_icon e sz ?p u = (None, u1)"
    and g1: "generate_icons e d specs u1 = (None, u')"
    unfolding spec
    by (cases "create_placeholder_icon e sz ?p u") (auto split: option.splits)
  from create_placeholder_icon_lockstep [OF c1 Cons.prems(2) Cons.prems(3)]
  obtain c where u1: "u1 = py_print (created_line sz ?p) (u\<lparr>files := (files u)(?p \<mapsto> PNG c)\<rparr>)"
    and cv: "create_placeholder_icon e sz ?p v =
      (None, py_print (created_line sz ?p) (v\<lparr>files := (files v)(?p \<mapsto> PNG c)\<rparr>))"
    by blast
  let ?v1 = "py_print (created_line sz ?p) (v\<lparr>files := (files v)(?p \<mapsto> PNG c)\<rparr>)"
  have dv: "dirs ?v1 = dirs u1"
    using Cons.prems(2) by (simp add: u1 py_print_def)
  have "\<And>q. os_path_exists v q = os_path_exists u q \<Longrightarrow> os_path_exists ?v1 q = os_path_exists u1 q"
    by (simp add: u1 os_path_exists_written)
  with Cons.prems(3) have fv: "map (os_path_exists ?v1) font_paths = map (os_path_exists u1) font_paths"
    by simp
  from Cons.IH [OF g1 dv fv] obtain M v' where
    M: "files u' = files u1 ++ M" "dom M \<subseteq> set (map (\<lambda>(sz, f). os_path_join d [f]) specs)"
      "dirs u' = dirs u1"
      "stdout u' = stdout u1 @ map (\<lambda>(sz, f). created_line sz (os_path_join d [f])) specs"
      "generate_icons e d specs ?v1 = (None, v')"
      "files v' = files ?v1 ++ M" "dirs v' = dirs ?v1"
    by blast
  let ?M = "[?p \<mapsto> PNG c] ++ M"
  have fu: "files u' = files u ++ ?M"
    using M(1) by (simp add: u1 py_print_def map_add_upd_left fun_eq_iff map_add_def split: option.splits)
  have fv': "files v' = files v ++ ?M"
    using M(6) by (simp add: py_print_def fun_eq_iff map_add_def split: option.splits)
  have dm: "dom ?M \<subseteq> set (map (\<lambda>(sz, f). os_path_join d [f]) (spec # specs))"
    using M(2) by (auto simp: spec)
  have du: "dirs u' = dirs u" using M(3) by (simp add: u1 py_print_def)
  have dv': "dirs v' = dirs v" using M(7) by (simp add: py_print_def)
  have so: "stdout u' = stdout u @ map (\<lambda>(sz, f). created_line sz (os_path_join d [f])) (spec # specs)"
    using M(4) by (simp add: u1 py_print_def spec)
  have gv: "generate_icons e d (spec # specs) v = (None, v')"
    by (simp add: spec cv M(5))
  from fu dm du so gv fv' dv' show ?case by blast
qed


section \<open>Paths\<close>

lemma os_path_join_single:
  assumes "d \<noteq> []" and "last d \<noteq> CHR ''/''" and "f \<noteq> []" and "hd f \<noteq> CHR ''/''"
  shows "os_path_join d [f] = d @ ''/'' @ f"
  using assms by (cases f) (simp_all add: os_path_join_def join_step_def)

lemma last_os_path_join:
  assumes "f \<noteq> []"
  shows "last (os_path_join d [f]) = last f"
  using assms by (cases f) (simp_all add: os_path_join_def join_step_def)

lemma app_icon_dir_eq:
  "app_icon_dir e =
     os_path_join (os_path_dirname (script_abspath e)) [''..''] @
       ''/Orchard/Assets.xcassets/AppIcon.appiconset''"
  by (simp add: app_icon_dir_def script_dir_def os_path_join_def join_step_def)

lemma app_icon_dir_last: "app_icon_dir e \<noteq> [] \<and> last (app_icon_dir e) = CHR ''t''"
  unfolding app_icon_dir_eq by simp

lemma icon_sizes_eq:
  "icon_sizes =
     map (\<lambda>sz. (sz, ''icon_'' @ str_int sz @ ''x'' @ str_int sz @ ''.png''))
       [16, 32, 64, 128, 256, 512, 1024]"
  by code_simp

lemma icon_paths:
  "map (\<lambda>(sz, f). os_path_join (app_icon_dir e) [f]) icon_sizes =
     map (\<lambda>(sz, f). app_icon_dir e @ ''/'' @ f) icon_sizes"
  using app_icon_dir_last [of e] by (simp add: icon_sizes_def os_path_join_single)

lemma icon_paths_distinct:
  "distinct (map (\<lambda>(sz, f). os_path_join (app_icon_dir e) [f]) icon_sizes)"
  unfolding icon_paths by (simp add: icon_sizes_def)

lemma icon_paths_last:
  assumes "p \<in> set (map (\<lambda>(sz, f). os_path_join d [f]) icon_sizes)"
  shows "last p = CHR ''g''"
  using assms by (auto simp: icon_sizes_def last_os_path_join)

lemma font_paths_last:
  assumes "p \<in> set font_paths"
  shows "last p \<noteq> CHR ''g''"
  using assms by (auto simp: font_paths_def)

section \<open>Printing and creating the directory\<close>

lemma print_lines_world:
  "dirs (print_lines ls w) = dirs w \<and> files (print_lines ls w) = files w \<and>
   stdout (print_lines ls w) = stdout w @ ls"
  unfolding print_lines_def by (induction ls arbitrary: w) (simp_all add: py_print_def)

lemma os_path_exists_print_lines:
  "os_path_exists (print_lines ls w) q = os_path_exists w q"
  by (simp add: os_path_exists_def print_lines_world)

lemma os_makedirs_Inr:
  assumes "os_makedirs d w = Inr w'"
  shows "d \<in> dirs w' \<and> files w' = files w \<and> stdout w' = stdout w \<and> dirs w' = insert d (dirs w)"
  using assms by (auto simp: os_makedirs_def split: if_splits option.splits)

lemma os_makedirs_existing:
  assumes "d \<in> dirs w"
  shows "os_makedirs d w = Inr w"
  using assms by (simp add: os_makedirs_def)

section \<open>A run of main\<close>

lemma main_None:
  assumes "main e w = (None, w')"
  shows "pil_installed e \<and>
         (\<exists>wa wb. os_makedirs (app_icon_dir e) w = Inr wa \<and>
            generate_icons e (app_icon_dir e) icon_sizes
              (print_lines (banner_lines (app_icon_dir e)) wa) = (None, wb) \<and>
            w' = print_lines completion_lines wb)"
proof -
  have p: "pil_installed e"
    using assms by (auto simp: main_def import_PIL_def split: if_splits)
  then have i: "import_PIL e = Inr ()" by (simp add: import_PIL_def)
  from assms obtain wa where m: "os_makedirs (app_icon_dir e) w = Inr wa"
    by (cases "os_makedirs (app_icon_dir e) w") (auto simp: main_def i)
  let ?g = "generate_icons e (app_icon_dir e) icon_sizes
              (print_lines (banner_lines (app_icon_dir e)) wa)"
  from assms have "fst ?g = None \<and> w' = print_lines completion_lines (snd ?g)"
    by (cases ?g) (auto simp: main_def i m split: option.splits)
  then have "?g = (None, snd ?g)" "w' = print_lines completion_lines (snd ?g)"
    by (simp_all add: prod_eq_iff)
  with p m show ?thesis by blast
qed


section \<open>The seven icons\<close>

lemma generate_icons_written:
  assumes "generate_icons e d specs u = (None, u')"
    and "distinct (map (\<lambda>(sz, f). os_path_join d [f]) specs)"
    and "(sz, f) \<in> set specs"
  shows "map_option im_size (written u' (os_path_join d [f])) = Some (sz, sz)"
  using assms
proof (induction specs arbitrary: u)
  case Nil
  then show ?case by simp
next
  case (Cons spec specs)
  obtain sz0 f0 where spec: "spec = (sz0, f0)" by (cases spec)
  let ?p = "os_path_join d [f0]"
  from Cons.prems(1) obtain u1 where c1: "create_placeholder_icon e sz0 ?p u = (None, u1)"
    and g1: "generate_icons e d specs u1 = (None, u')"
    unfolding spec
    by (cases "create_placeholder_icon e sz0 ?p u") (auto split: option.splits)
  from Cons.prems(2) have dist: "distinct (map (\<lambda>(sz, f). os_path_join d [f]) specs)"
    and fresh: "?p \<notin> set (map (\<lambda>(sz, f). os_path_join d [f]) specs)"
    by (simp_all add: spec)
  show ?case
  proof (cases "(sz, f) \<in> set specs")
    case True
    from Cons.IH [OF g1 dist True] show ?thesis .
  next
    case False
    with Cons.prems(3) have eq: "sz = sz0" "f = f0" by (simp_all add: spec)
    from create_placeholder_icon_None [OF c1] obtain c where c: "im_size c = (sz0, sz0)"
      and u1: "u1 = py_print (created_line sz0 ?p) (u\<lparr>files := (files u)(?p \<mapsto> PNG c)\<rparr>)"
      by blast
    from generate_icons_lockstep [OF g1 refl refl] obtain M where
      M: "files u' = files u1 ++ M" "dom M \<subseteq> set (map (\<lambda>(sz, f). os_path_join d [f]) specs)"
      by blast
    from M(2) fresh have "M ?p = None" by blast
    with M(1) have "files u' ?p = Some (PNG c)"
      by (simp add: u1 py_print_def map_add_def)
    with c show ?thesis by (simp add: eq written_def)
  qed
qed

lemma map_add_twice: "(m ++ M) ++ M = m ++ M"
  by (simp add: fun_eq_iff map_add_def split: option.splits)

lemma main_effect:
  assumes "main e w = (None, w')"
  shows "dirs w' = insert (app_icon_dir e) (dirs w) \<and>
         stdout w' = stdout w @ banner_lines (app_icon_dir e) @
           map (\<lambda>(sz, f). created_line sz (app_icon_dir e @ ''/'' @ f)) icon_sizes @
           completion_lines \<and>
         list_all (\<lambda>(sz, f). map_option im_size (written w' (app_icon_dir e @ ''/'' @ f)) = Some (sz, sz))
           icon_sizes \<and>
         (\<forall>q. q \<notin> set (map (\<lambda>(sz, f). app_icon_dir e @ ''/'' @ f) icon_sizes) \<longrightarrow>
              files w' q = files w q)"
proof -
  let ?d = "app_icon_dir e"
  from main_None [OF assms] obtain wa wb where
    m: "os_makedirs ?d w = Inr wa"
    and g: "generate_icons e ?d icon_sizes (print_lines (banner_lines ?d) wa) = (None, wb)"
    and w': "w' = print_lines completion_lines wb"
    by blast
  let ?u = "print_lines (banner_lines ?d) wa"
  note wa = os_makedirs_Inr [OF m]
  from generate_icons_lockstep [OF g refl refl] obtain M where
    M: "files wb = files ?u ++ M"
      "dom M \<subseteq> set (map (\<lambda>(sz, f). os_path_join ?d [f]) icon_sizes)"
      "dirs wb = dirs ?u"
      "stdout wb = stdout ?u @ map (\<lambda>(sz, f). created_line sz (os_path_join ?d [f])) icon_sizes"
    by blast
  have lines: "map (\<lambda>(sz, f). created_line sz (os_path_join ?d [f])) icon_sizes =
      map (\<lambda>(sz, f). created_line sz (?d @ ''/'' @ f)) icon_sizes"
    using app_icon_dir_last [of e] by (simp add: icon_sizes_def os_path_join_single)
  have 1: "dirs w' = insert ?d (dirs w)"
    using wa M(3) by (simp add: w' print_lines_world)
  have 2: "stdout w' = stdout w @ banner_lines ?d @
           map (\<lambda>(sz, f). created_line sz (?d @ ''/'' @ f)) icon_sizes @ completion_lines"
    using wa M(4) by (simp add: w' print_lines_world lines)
  have "map_option im_size (written wb (os_path_join ?d [f])) = Some (sz, sz)"
    if "(sz, f) \<in> set icon_sizes" for sz f
    by (rule generate_icons_written [OF g icon_paths_distinct that])
  then have wr: "map_option im_size (written w' (os_path_join ?d [f])) = Some (sz, sz)"
    if "(sz, f) \<in> set icon_sizes" for sz f
    using that by (simp add: w' written_def print_lines_world)
  have j: "os_path_join ?d [f] = ?d @ ''/'' @ f" if "(sz, f) \<in> set icon_sizes" for sz f
    using that app_icon_dir_last [of e] by (auto simp: icon_sizes_def os_path_join_single)
  have "map_option im_size (written w' (?d @ ''/'' @ f)) = Some (sz, sz)"
    if "(sz, f) \<in> set icon_sizes" for sz f
    using wr [OF that] unfolding j [OF that] .
  then have 3: "list_all (\<lambda>(sz, f). map_option im_size (written w' (?d @ ''/'' @ f)) = Some (sz, sz))
           icon_sizes"
    unfolding list_all_iff by blast
  have 4: "files w' q = files w q"
    if "q \<notin> set (map (\<lambda>(sz, f). ?d @ ''/'' @ f) icon_sizes)" for q
  proof -
    from that M(2) have "M q = None" unfolding icon_paths by blast
    with M(1) wa show ?thesis by (simp add: w' print_lines_world map_add_def)
  qed
  from 1 2 3 4 show ?thesis by blast
qed

lemma second_run:
  assumes "main e w = (None, w1)"
  shows "fst (main e w1) = None \<and> dirs (snd (main e w1)) = dirs w1 \<and>
         files (snd (main e w1)) = files w1"
proof -
  let ?d = "app_icon_dir e"
  from main_None [OF assms] obtain wa wb where p: "pil_installed e"
    and m: "os_makedirs ?d w = Inr wa"
    and g: "generate_icons e ?d icon_sizes (print_lines (banner_lines ?d) wa) = (None, wb)"
    and w1: "w1 = print_lines completion_lines wb"
    by blast
  let ?u = "print_lines (banner_lines ?d) wa"
  let ?v = "print_lines (banner_lines ?d) w1"
  note wa = os_makedirs_Inr [OF m]
  from generate_icons_lockstep [OF g refl refl] obtain M where
    M: "files wb = files ?u ++ M"
      "dom M \<subseteq> set (map (\<lambda>(sz, f). os_path_join ?d [f]) icon_sizes)"
      "dirs wb = dirs ?u"
    by blast
  have dv: "dirs ?v = dirs ?u"
    using M(3) by (simp add: w1 print_lines_world)
  have "os_path_exists ?v q = os_path_exists ?u q" if "q \<in> set font_paths" for q
  proof -
    from font_paths_last [OF that] icon_paths_last M(2) have "M q = None" by blast
    with M(1) M(3) show ?thesis
      by (simp add: os_path_exists_def w1 print_lines_world map_add_def)
  qed
  then have fv: "map (os_path_exists ?v) font_paths = map (os_path_exists ?u) font_paths"
    by simp
  from generate_icons_lockstep [OF g dv fv] obtain M' v' where
    M': "files wb = files ?u ++ M'" "generate_icons e ?d icon_sizes ?v = (None, v')"
      "files v' = files ?v ++ M'" "dirs v' = dirs ?v"
    by blast
  have "files ?v = files wb" by (simp add: w1 print_lines_world)
  with M'(1) M'(3) have fv': "files v' = files wb"
    by (simp add: map_add_twice)
  have "?d \<in> dirs w1"
    using wa M(3) by (simp add: w1 print_lines_world)
  then have mk: "os_makedirs ?d w1 = Inr w1"
    by (rule os_makedirs_existing)
  have "main e w1 = (None, print_lines completion_lines v')"
    using p by (simp add: main_def import_PIL_def mk M'(2))
  with fv' M'(4) dv M(3) show ?thesis
    by (simp add: w1 print_lines_world)
qed


text \<open>C6: a run of \<open>main\<close> that ends without an exception. The list of icon sizes
  is the seven pairs of a size 16, 32, 64, 128, 256, 512, 1024 and the file name
  \<open>icon_{size}x{size}.png\<close>. The output directory is the directory of the script
  file, then \<open>..\<close>, then \<open>Orchard/Assets.xcassets/AppIcon.appiconset\<close>, and it is a
  directory afterwards. \<open>create_placeholder_icon\<close> is called once for each pair, in
  the order of the list: each call prints its one line, and standard output has
  exactly these lines between the banner and the closing lines. Each pair's file in
  the output directory holds an image of its size, and no other file is changed.\<close>

theorem main_generates_seven_icons:
  assumes "main e w = (None, w')"
  shows "icon_sizes =
           map (\<lambda>sz. (sz, ''icon_'' @ str_int sz @ ''x'' @ str_int sz @ ''.png''))
             [16, 32, 64, 128, 256, 512, 1024] \<and>
         app_icon_dir e =
           os_path_join (os_path_dirname (script_abspath e)) [''..''] @
             ''/Orchard/Assets.xcassets/AppIcon.appiconset'' \<and>
         app_icon_dir e \<in> dirs w' \<and>
         stdout w' = stdout w @ banner_lines (app_icon_dir e) @
           map (\<lambda>(sz, f). created_line sz (app_icon_dir e @ ''/'' @ f)) icon_sizes @
           completion_lines \<and>
         list_all (\<lambda>(sz, f). map_option im_size (written w' (app_icon_dir e @ ''/'' @ f)) = Some (sz, sz))
           icon_sizes \<and>
         (\<forall>q. q \<notin> set (map (\<lambda>(sz, f). app_icon_dir e @ ''/'' @ f) icon_sizes) \<longrightarrow>
              files w' q = files w q)"
proof -
  note eff = main_effect [OF assms]
  from eff have "app_icon_dir e \<in> dirs w'" by simp
  with icon_sizes_eq app_icon_dir_eq [of e] eff show ?thesis by blast
qed

theorem main_generates_seven_icons_witness:
  "main sample_env sample_world = (None, snd (main sample_env sample_world)) \<and>
   app_icon_dir sample_env = ''/repo/scripts/../Orchard/Assets.xcassets/AppIcon.appiconset'' \<and>
   app_icon_dir sample_env \<in> dirs (snd (main sample_env sample_world)) \<and>
   list_all (\<lambda>(sz, f). map_option im_size
       (written (snd (main sample_env sample_world)) (app_icon_dir sample_env @ ''/'' @ f)) = Some (sz, sz))
     icon_sizes \<and>
   stdout (snd (main sample_env sample_world)) =
     stdout sample_world @ banner_lines (app_icon_dir sample_env) @
       map (\<lambda>(sz, f). created_line sz (app_icon_dir sample_env @ ''/'' @ f)) icon_sizes @
       completion_lines"
proof -
  have "fst (main sample_env sample_world) = None"
    by code_simp
  then have h: "main sample_env sample_world = (None, snd (main sample_env sample_world))"
    by (simp add: prod_eq_iff)
  have a: "app_icon_dir sample_env = ''/repo/scripts/../Orchard/Assets.xcassets/AppIcon.appiconset''"
    by code_simp
  note t = main_generates_seven_icons [OF h]
  from t have t3: "app_icon_dir sample_env \<in> dirs (snd (main sample_env sample_world))"
    by (elim conjE)
  from t have t4: "stdout (snd (main sample_env sample_world)) =
     stdout sample_world @ banner_lines (app_icon_dir sample_env) @
       map (\<lambda>(sz, f). created_line sz (app_icon_dir sample_env @ ''/'' @ f)) icon_sizes @
       completion_lines"
    by (elim conjE)
  from t have t5: "list_all (\<lambda>(sz, f). map_option im_size
       (written (snd (main sample_env sample_world)) (app_icon_dir sample_env @ ''/'' @ f)) = Some (sz, sz))
     icon_sizes"
    by (elim conjE)
  from h a t3 t5 t4 show ?thesis by (intro conjI)
qed

text \<open>The files the loop writes are exactly those at the paths of the list.\<close>

lemma generate_icons_lockstep_dom:
  assumes "generate_icons e d specs u = (None, u')"
    and "dirs v = dirs u"
    and "map (os_path_exists v) font_paths = map (os_path_exists u) font_paths"
  shows "\<exists>M v'. files u' = files u ++ M \<and> dom M = set (map (\<lambda>(sz, f). os_path_join d [f]) specs) \<and>
           dirs u' = dirs u \<and>
           generate_icons e d specs v = (None, v') \<and>
           files v' = files v ++ M \<and> dirs v' = dirs v"
  using assms
proof (induction specs arbitrary: u v)
  case Nil
  then have "u' = u" by simp
  then show ?case by (intro exI [of _ Map.empty] exI [of _ v]) simp
next
  case (Cons spec specs)
  obtain sz f where spec: "spec = (sz, f)" by (cases spec)
  let ?p = "os_path_join d [f]"
  from Cons.prems(1) obtain u1 where c1: "create_placeholder_icon e sz ?p u = (None, u1)"
    and g1: "generate_icons e d specs u1 = (None, u')"
    unfolding spec
    by (cases "create_placeholder_icon e sz ?p u") (auto split: option.splits)
  from create_placeholder_icon_lockstep [OF c1 Cons.prems(2) Cons.prems(3)]
  obtain c where u1: "u1 = py_print (created_line sz ?p) (u\<lparr>files := (files u)(?p \<mapsto> PNG c)\<rparr>)"
    and cv: "create_placeholder_icon e sz ?p v =
      (None, py_print (created_line sz ?p) (v\<lparr>files := (files v)(?p \<mapsto> PNG c)\<rparr>))"
    by blast
  let ?v1 = "py_print (created_line sz ?p) (v\<lparr>files := (files v)(?p \<mapsto> PNG c)\<rparr>)"
  have dv: "dirs ?v1 = dirs u1"
    using Cons.prems(2) by (simp add: u1 py_print_def)
  have "\<And>q. os_path_exists v q = os_path_exists u q \<Longrightarrow> os_path_exists ?v1 q = os_path_exists u1 q"
    by (simp add: u1 os_path_exists_written)
  with Cons.prems(3) have fv: "map (os_path_exists ?v1) font_paths = map (os_path_exists u1) font_paths"
    by simp
  from Cons.IH [OF g1 dv fv] obtain M v' where
    M: "files u' = files u1 ++ M" "dom M = set (map (\<lambda>(sz, f). os_path_join d [f]) specs)"
      "dirs u' = dirs u1"
      "generate_icons e d specs ?v1 = (None, v')"
      "files v' = files ?v1 ++ M" "dirs v' = dirs ?v1"
    by blast
  let ?M = "[?p \<mapsto> PNG c] ++ M"
  have fu: "files u' = files u ++ ?M"
    using M(1) by (simp add: u1 py_print_def fun_eq_iff map_add_def split: option.splits)
  have fv': "files v' = files v ++ ?M"
    using M(5) by (simp add: py_print_def fun_eq_iff map_add_def split: option.splits)
  have dm: "dom ?M = set (map (\<lambda>(sz, f). os_path_join d [f]) (spec # specs))"
    using M(2) by (auto simp: spec)
  have du: "dirs u' = dirs u" using M(3) by (simp add: u1 py_print_def)
  have dv': "dirs v' = dirs v" using M(6) by (simp add: py_print_def)
  have gv: "generate_icons e d (spec # specs) v = (None, v')"
    by (simp add: spec cv M(4))
  from fu dm du gv fv' dv' show ?case by blast
qed

text \<open>A run of \<open>main\<close> from a world that has the directories the first run left,
  and its files everywhere but at the seven icon paths, where anything or nothing may
  be: it ends without an exception and leaves the files the first run left.\<close>

lemma rerun:
  assumes run: "main e w = (None, w1)"
    and dv: "dirs v = dirs w1"
    and fv: "\<forall>q. q \<notin> set (map (\<lambda>(sz, f). app_icon_dir e @ ''/'' @ f) icon_sizes) \<longrightarrow>
               files v q = files w1 q"
  shows "fst (main e v) = None \<and> dirs (snd (main e v)) = dirs w1 \<and>
         files (snd (main e v)) = files w1"
proof -
  let ?d = "app_icon_dir e"
  let ?paths = "set (map (\<lambda>(sz, f). os_path_join ?d [f]) icon_sizes)"
  from main_None [OF run] obtain wa wb where p: "pil_installed e"
    and m: "os_makedirs ?d w = Inr wa"
    and g: "generate_icons e ?d icon_sizes (print_lines (banner_lines ?d) wa) = (None, wb)"
    and w1: "w1 = print_lines completion_lines wb"
    by blast
  let ?u = "print_lines (banner_lines ?d) wa"
  let ?v = "print_lines (banner_lines ?d) v"
  note wa = os_makedirs_Inr [OF m]
  have fw1: "files w1 = files wb" "dirs w1 = dirs wb"
    by (simp_all add: w1 print_lines_world)
  from generate_icons_lockstep_dom [OF g refl refl] obtain M where
    M: "files wb = files ?u ++ M" "dom M = ?paths" "dirs wb = dirs ?u"
    by blast
  have outside: "files v q = files wb q" if "q \<notin> ?paths" for q
    using that fv unfolding icon_paths fw1 by blast
  have dv0: "dirs ?v = dirs ?u"
    using dv M(3) by (simp add: fw1 print_lines_world)
  have "os_path_exists ?v q = os_path_exists ?u q" if "q \<in> set font_paths" for q
  proof -
    from font_paths_last [OF that] icon_paths_last have np: "q \<notin> ?paths" by blast
    with M(2) have "M q = None" by blast
    with M(1) have "files wb q = files ?u q" by (simp add: map_add_def)
    with outside [OF np] have "files v q = files ?u q" by simp
    with dv0 show ?thesis
      by (simp add: os_path_exists_def print_lines_world)
  qed
  then have fv0: "map (os_path_exists ?v) font_paths = map (os_path_exists ?u) font_paths"
    by simp
  from generate_icons_lockstep_dom [OF g dv0 fv0] obtain M' v' where
    M': "files wb = files ?u ++ M'" "dom M' = ?paths"
      "generate_icons e ?d icon_sizes ?v = (None, v')"
      "files v' = files ?v ++ M'" "dirs v' = dirs ?v"
    by blast
  have "(files v ++ M') q = files wb q" for q
  proof (cases "M' q")
    case None
    then have "q \<notin> ?paths" using M'(2) by blast
    from outside [OF this] None show ?thesis by (simp add: map_add_def)
  next
    case (Some x)
    then show ?thesis by (simp add: M'(1) map_add_def)
  qed
  then have "files v ++ M' = files wb" by (simp add: fun_eq_iff)
  with M'(4) have fv': "files v' = files wb"
    by (simp add: print_lines_world)
  have "?d \<in> dirs v"
    using wa M(3) dv by (simp add: fw1 print_lines_world)
  then have mk: "os_makedirs ?d v = Inr v"
    by (rule os_makedirs_existing)
  have "main e v = (None, print_lines completion_lines v')"
    using p by (simp add: main_def import_PIL_def mk M'(3))
  with fv' M'(5) dv0 M(3) show ?thesis
    by (simp add: fw1 print_lines_world)
qed

text \<open>C9: after a run of \<open>main\<close> that ended without an exception, a second run in
  the world the first one left ends without an exception too. The output directory
  exists and \<open>os.makedirs\<close> accepts it, leaving the world as it is; every one of the
  seven icons is generated again, as the lines printed show, and each of the seven
  icon paths holds an image of its size afterwards; the directories and the files,
  with their contents, are those the first run left. The seven files are written, not
  merely kept: a run from any world with the same directories and the same other
  files, whatever is or is not at the seven icon paths, ends without an exception
  with the same files as well.\<close>

theorem second_run_idempotent:
  assumes "main e w = (None, w1)"
  shows "os_makedirs (app_icon_dir e) w1 = Inr w1 \<and>
         fst (main e w1) = None \<and>
         dirs (snd (main e w1)) = dirs w1 \<and>
         files (snd (main e w1)) = files w1 \<and>
         stdout (snd (main e w1)) = stdout w1 @ banner_lines (app_icon_dir e) @
           map (\<lambda>(sz, f). created_line sz (app_icon_dir e @ ''/'' @ f)) icon_sizes @
           completion_lines \<and>
         list_all (\<lambda>(sz, f). map_option im_size
             (written (snd (main e w1)) (app_icon_dir e @ ''/'' @ f)) = Some (sz, sz)) icon_sizes \<and>
         (\<forall>v. dirs v = dirs w1 \<and>
              (\<forall>q. q \<notin> set (map (\<lambda>(sz, f). app_icon_dir e @ ''/'' @ f) icon_sizes) \<longrightarrow>
                   files v q = files w1 q) \<longrightarrow>
              fst (main e v) = None \<and>
              dirs (snd (main e v)) = dirs w1 \<and>
              files (snd (main e v)) = files w1 \<and>
              list_all (\<lambda>(sz, f). map_option im_size
                  (written (snd (main e v)) (app_icon_dir e @ ''/'' @ f)) = Some (sz, sz)) icon_sizes)"
proof -
  note r = second_run [OF assms]
  from main_effect [OF assms] have "app_icon_dir e \<in> dirs w1" by simp
  then have mk: "os_makedirs (app_icon_dir e) w1 = Inr w1"
    by (rule os_makedirs_existing)
  from r have "main e w1 = (None, snd (main e w1))"
    by (simp add: prod_eq_iff)
  note e2 = main_effect [OF this]
  from e2 have so: "stdout (snd (main e w1)) = stdout w1 @ banner_lines (app_icon_dir e) @
           map (\<lambda>(sz, f). created_line sz (app_icon_dir e @ ''/'' @ f)) icon_sizes @
           completion_lines"
    by (elim conjE)
  from e2 have la: "list_all (\<lambda>(sz, f). map_option im_size
             (written (snd (main e w1)) (app_icon_dir e @ ''/'' @ f)) = Some (sz, sz)) icon_sizes"
    by (elim conjE)
  have cl: "fst (main e v) = None \<and>
              dirs (snd (main e v)) = dirs w1 \<and>
              files (snd (main e v)) = files w1 \<and>
              list_all (\<lambda>(sz, f). map_option im_size
                  (written (snd (main e v)) (app_icon_dir e @ ''/'' @ f)) = Some (sz, sz)) icon_sizes"
    if "dirs v = dirs w1"
      and "\<forall>q. q \<notin> set (map (\<lambda>(sz, f). app_icon_dir e @ ''/'' @ f) icon_sizes) \<longrightarrow>
                   files v q = files w1 q" for v
  proof -
    note rv = rerun [OF assms that]
    then have "main e v = (None, snd (main e v))"
      by (simp add: prod_eq_iff)
    from main_effect [OF this]
    have "list_all (\<lambda>(sz, f). map_option im_size
                  (written (snd (main e v)) (app_icon_dir e @ ''/'' @ f)) = Some (sz, sz)) icon_sizes"
      by (elim conjE)
    with rv show ?thesis by blast
  qed
  from r mk so la cl show ?thesis by blast
qed

theorem second_run_idempotent_witness:
  "main sample_env sample_world = (None, snd (main sample_env sample_world)) \<and>
   os_makedirs (app_icon_dir sample_env) (snd (main sample_env sample_world)) =
     Inr (snd (main sample_env sample_world)) \<and>
   fst (main sample_env (snd (main sample_env sample_world))) = None \<and>
   dirs (snd (main sample_env (snd (main sample_env sample_world)))) =
     dirs (snd (main sample_env sample_world)) \<and>
   files (snd (main sample_env (snd (main sample_env sample_world)))) =
     files (snd (main sample_env sample_world)) \<and>
   list_all (\<lambda>(sz, f). map_option im_size
       (written (snd (main sample_env (snd (main sample_env sample_world))))
          (app_icon_dir sample_env @ ''/'' @ f)) = Some (sz, sz)) icon_sizes \<and>
   files clobbered_world
     ''/repo/scripts/../Orchard/Assets.xcassets/AppIcon.appiconset/icon_16x16.png'' = Some OtherData \<and>
   files clobbered_world
     ''/repo/scripts/../Orchard/Assets.xcassets/AppIcon.appiconset/icon_1024x1024.png'' = None \<and>
   dirs clobbered_world = dirs (snd (main sample_env sample_world)) \<and>
   fst (main sample_env clobbered_world) = None \<and>
   dirs (snd (main sample_env clobbered_world)) = dirs (snd (main sample_env sample_world)) \<and>
   files (snd (main sample_env clobbered_world)) = files (snd (main sample_env sample_world)) \<and>
   list_all (\<lambda>(sz, f). map_option im_size
       (written (snd (main sample_env clobbered_world))
          (app_icon_dir sample_env @ ''/'' @ f)) = Some (sz, sz)) icon_sizes"
proof -
  have "fst (main sample_env sample_world) = None"
    by code_simp
  then have h: "main sample_env sample_world = (None, snd (main sample_env sample_world))"
    by (simp add: prod_eq_iff)
  have a: "app_icon_dir sample_env = ''/repo/scripts/../Orchard/Assets.xcassets/AppIcon.appiconset''"
    by code_simp
  have c1: "files clobbered_world
     ''/repo/scripts/../Orchard/Assets.xcassets/AppIcon.appiconset/icon_16x16.png'' = Some OtherData"
    by (simp add: clobbered_world_def)
  have c2: "files clobbered_world
     ''/repo/scripts/../Orchard/Assets.xcassets/AppIcon.appiconset/icon_1024x1024.png'' = None"
    by (simp add: clobbered_world_def)
  have c3: "dirs clobbered_world = dirs (snd (main sample_env sample_world))"
    by (simp add: clobbered_world_def)
  have c4: "\<forall>q. q \<notin> set (map (\<lambda>(sz, f). app_icon_dir sample_env @ ''/'' @ f) icon_sizes) \<longrightarrow>
      files clobbered_world q = files (snd (main sample_env sample_world)) q"
    unfolding a by (simp add: icon_sizes_def clobbered_world_def)
  note t = second_run_idempotent [OF h]
  from t have t1: "os_makedirs (app_icon_dir sample_env) (snd (main sample_env sample_world)) =
     Inr (snd (main sample_env sample_world))"
    by (elim conjE)
  from t have t2: "fst (main sample_env (snd (main sample_env sample_world))) = None"
    by (elim conjE)
  from t have t3: "dirs (snd (main sample_env (snd (main sample_env sample_world)))) =
     dirs (snd (main sample_env sample_world))"
    by (elim conjE)
  from t have t4: "files (snd (main sample_env (snd (main sample_env sample_world)))) =
     files (snd (main sample_env sample_world))"
    by (elim conjE)
  from t have t5: "list_all (\<lambda>(sz, f). map_option im_size
       (written (snd (main sample_env (snd (main sample_env sample_world))))
          (app_icon_dir sample_env @ ''/'' @ f)) = Some (sz, sz)) icon_sizes"
    by (elim conjE)
  from t have tv: "dirs v = dirs (snd (main sample_env sample_world)) \<and>
      (\<forall>q. q \<notin> set (map (\<lambda>(sz, f). app_icon_dir sample_env @ ''/'' @ f) icon_sizes) \<longrightarrow>
           files v q = files (snd (main sample_env sample_world)) q) \<longrightarrow>
      fst (main sample_env v) = None \<and>
      dirs (snd (main sample_env v)) = dirs (snd (main sample_env sample_world)) \<and>
      files (snd (main sample_env v)) = files (snd (main sample_env sample_world)) \<and>
      list_all (\<lambda>(sz, f). map_option im_size
          (written (snd (main sample_env v)) (app_icon_dir sample_env @ ''/'' @ f)) = Some (sz, sz))
        icon_sizes" for v
    by (elim conjE allE)
  from tv [of clobbered_world] c3 c4
  have t6: "fst (main sample_env clobbered_world) = None \<and>
      dirs (snd (main sample_env clobbered_world)) = dirs (snd (main sample_env sample_world)) \<and>
      files (snd (main sample_env clobbered_world)) = files (snd (main sample_env sample_world)) \<and>
      list_all (\<lambda>(sz, f). map_option im_size
          (written (snd (main sample_env clobbered_world)) (app_icon_dir sample_env @ ''/'' @ f)) =
            Some (sz, sz))
        icon_sizes"
    by (rule mp [OF _ conjI])
  from h t1 t2 t3 t4 t5 c1 c2 c3 t6 show ?thesis by (intro conjI) (elim conjE, assumption)+
qed

end
